theory Spec2Isabelle
  imports Complex_Main
begin

section \<open>The procedural cat figure of cat-model.js\<close>

text \<open>
  A shallow embedding of the class \<open>CatModel\<close> (cat-model.js) and of the pose switch of
  the viewer class \<open>CatViewer\<close>. Objects that the program shares by reference
  (geometries, materials) live in stores and are named by their address, the index in the
  store; an allocation appends to the store. The transform of a scene object (position,
  rotation, scale) is owned by that object and is a field of its record.
\<close>

subsection \<open>Numbers\<close>

text \<open>
  The components of a transform are JavaScript numbers: a finite value, one of the two
  infinities, or \<open>NaN\<close>. A finite value is read as the real number it stands for; a
  product or a sum whose magnitude exceeds the largest double, \<open>Number.MAX_VALUE\<close>,
  overflows to an infinity, and the sine and the cosine of an infinity or of \<open>NaN\<close> are
  \<open>NaN\<close>. The constants of the source and what the source computes from constants alone
  (geometry and material parameters, whisker end points) are finite and are reals.
\<close>

datatype number = Num real | PosInfinity | NegInfinity | NaN

definition MAX_VALUE :: real where
  "MAX_VALUE = (2 ^ 53 - 1) * 2 ^ 971"

definition overflow :: "real \<Rightarrow> number" where
  "overflow x =
     (if MAX_VALUE < x then PosInfinity else if x < - MAX_VALUE then NegInfinity else Num x)"

fun js_times :: "number \<Rightarrow> number \<Rightarrow> number" where
  "js_times NaN _ = NaN"
| "js_times _ NaN = NaN"
| "js_times (Num a) (Num b) = overflow (a * b)"
| "js_times (Num a) PosInfinity =
     (if a = 0 then NaN else if 0 < a then PosInfinity else NegInfinity)"
| "js_times (Num a) NegInfinity =
     (if a = 0 then NaN else if 0 < a then NegInfinity else PosInfinity)"
| "js_times PosInfinity (Num b) =
     (if b = 0 then NaN else if 0 < b then PosInfinity else NegInfinity)"
| "js_times NegInfinity (Num b) =
     (if b = 0 then NaN else if 0 < b then NegInfinity else PosInfinity)"
| "js_times PosInfinity PosInfinity = PosInfinity"
| "js_times PosInfinity NegInfinity = NegInfinity"
| "js_times NegInfinity PosInfinity = NegInfinity"
| "js_times NegInfinity NegInfinity = PosInfinity"

fun js_plus :: "number \<Rightarrow> number \<Rightarrow> number" where
  "js_plus NaN _ = NaN"
| "js_plus _ NaN = NaN"
| "js_plus (Num a) (Num b) = overflow (a + b)"
| "js_plus (Num a) PosInfinity = PosInfinity"
| "js_plus (Num a) NegInfinity = NegInfinity"
| "js_plus PosInfinity (Num b) = PosInfinity"
| "js_plus NegInfinity (Num b) = NegInfinity"
| "js_plus PosInfinity PosInfinity = PosInfinity"
| "js_plus NegInfinity NegInfinity = NegInfinity"
| "js_plus PosInfinity NegInfinity = NaN"
| "js_plus NegInfinity PosInfinity = NaN"

fun js_neg :: "number \<Rightarrow> number" where
  "js_neg (Num a) = Num (- a)"
| "js_neg PosInfinity = NegInfinity"
| "js_neg NegInfinity = PosInfinity"
| "js_neg NaN = NaN"

fun Math_sin :: "number \<Rightarrow> number" where
  "Math_sin (Num a) = Num (sin a)"
| "Math_sin _ = NaN"

fun Math_cos :: "number \<Rightarrow> number" where
  "Math_cos (Num a) = Num (cos a)"
| "Math_cos _ = NaN"

subsection \<open>Vectors, geometries, materials, scene objects\<close>

record vector3 =
  vx :: number
  vy :: number
  vz :: number

text \<open>\<open>new Vector3(a, b, c)\<close> and \<open>set(a, b, c)\<close> with numeric literals.\<close>

definition Vector3 :: "real \<Rightarrow> real \<Rightarrow> real \<Rightarrow> vector3" where
  "Vector3 a b c = \<lparr>vx = Num a, vy = Num b, vz = Num c\<rparr>"

text \<open>The rotation of an object is an Euler triple; only its three angles are used.\<close>

record euler =
  rx :: number
  ry :: number
  rz :: number

definition Euler :: "real \<Rightarrow> real \<Rightarrow> real \<Rightarrow> euler" where
  "Euler a b c = \<lparr>rx = Num a, ry = Num b, rz = Num c\<rparr>"

datatype curve = CatmullRomCurve3 "vector3 list"

text \<open>
  A geometry is recorded by the constructor call that made it, with the arguments in the
  order of the call. \<open>SphereGeometry\<close>: radius, width segments, height segments, phi
  start, phi length, theta start, theta length. \<open>ConeGeometry\<close>: radius, height, radial
  segments. \<open>TubeGeometry\<close>: path, tubular segments, radius, radial segments, closed.
  \<open>BufferGeometry\<close>: the flat position attribute (three numbers per vertex).
  \<open>Scaled\<close> records a call of the geometry's own \<open>scale(x, y, z)\<close>.
\<close>

datatype geometry =
    SphereGeometry real nat nat real real real real
  | ConeGeometry real real nat
  | TubeGeometry curve nat real nat bool
  | BufferGeometry "real list"
  | Scaled geometry real real real

fun tube_path :: "geometry \<Rightarrow> curve option" where
  "tube_path (TubeGeometry c ts r rs cl) = Some c"
| "tube_path _ = None"

fun tube_radius :: "geometry \<Rightarrow> real option" where
  "tube_radius (TubeGeometry c ts r rs cl) = Some r"
| "tube_radius _ = None"

fun tube_segments :: "geometry \<Rightarrow> (nat \<times> nat) option" where
  "tube_segments (TubeGeometry c ts r rs cl) = Some (rs, ts)"
| "tube_segments _ = None"

fun tube_closed :: "geometry \<Rightarrow> bool option" where
  "tube_closed (TubeGeometry c ts r rs cl) = Some cl"
| "tube_closed _ = None"

fun curve_points :: "curve \<Rightarrow> vector3 list" where
  "curve_points (CatmullRomCurve3 ps) = ps"

text \<open>The canvas painted by \<open>addFurDetails\<close>: a filled background and line strokes.\<close>

record stroke =
  strokeStyle :: "nat \<times> nat \<times> nat \<times> real"
  lineWidth :: real
  moveTo :: "real \<times> real"
  lineTo :: "real \<times> real"

record canvas =
  canvas_width :: nat
  canvas_height :: nat
  fillStyle :: string
  strokes :: "stroke list"

datatype wrapping = ClampToEdgeWrapping | RepeatWrapping

record texture =
  tex_image :: canvas
  wrapS :: wrapping
  wrapT :: wrapping
  tex_repeat :: "real \<times> real"

datatype material_class = MeshStandardMaterial | LineBasicMaterial

text \<open>
  A material. A colour is recorded by the hex code it was last set from. \<open>version\<close>
  counts the assignments \<open>needsUpdate = true\<close>.
\<close>

record material =
  mclass :: material_class
  mcolor :: nat
  roughness :: real
  metalness :: real
  normalScale :: "real \<times> real"
  emissive :: nat
  emissiveIntensity :: real
  mopacity :: real
  transparent :: bool
  mwireframe :: bool
  normalMap :: "texture option"
  version :: nat

text \<open>The library's defaults, for the parameters a constructor call leaves out.\<close>

definition default_material :: "material_class \<Rightarrow> material" where
  "default_material k =
     \<lparr>mclass = k, mcolor = 0xffffff, roughness = 1, metalness = 0, normalScale = (1, 1),
      emissive = 0x000000, emissiveIntensity = 1, mopacity = 1, transparent = False,
      mwireframe = False, normalMap = None, version = 0\<rparr>"

datatype object_class = Mesh | LineSegments

text \<open>
  A scene object. \<open>name\<close> is the source's variable name for the object, kept as a label
  to tell the segments apart; no operation reads it. \<open>geom\<close> and \<open>mat\<close> are addresses in
  the geometry store and the material store.
\<close>

record object3d =
  oclass :: object_class
  name :: string
  geom :: nat
  mat :: nat
  position :: vector3
  rotation :: euler
  scale :: vector3
  castShadow :: bool
  receiveShadow :: bool

definition new_object :: "object_class \<Rightarrow> string \<Rightarrow> nat \<Rightarrow> nat \<Rightarrow> object3d" where
  "new_object k n g m =
     \<lparr>oclass = k, name = n, geom = g, mat = m,
      position = Vector3 0 0 0, rotation = Euler 0 0 0,
      scale = Vector3 1 1 1, castShadow = False, receiveShadow = False\<rparr>"

text \<open>
  Modelled from the spec: \<open>clone\<close> is the library's; the spec's \<open>mirror\<close> operation says
  that the twin shares the geometry description and the material reference of the
  original and has a transform of its own. The copy takes the same two addresses and
  copies the values of position, rotation, scale and the shadow flags; the label is the
  clone's variable name.
\<close>

definition clone :: "string \<Rightarrow> object3d \<Rightarrow> object3d" where
  "clone n source =
     \<lparr>oclass = oclass source, name = n, geom = geom source, mat = mat source,
      position = position source, rotation = rotation source, scale = scale source,
      castShadow = castShadow source, receiveShadow = receiveShadow source\<rparr>"

text \<open>The object \<open>this.materials\<close>: one material address for each of the six roles.\<close>

record material_set =
  blackFurMaterial :: nat
  whiteFurMaterial :: nat
  eyeMaterial :: nat
  noseMaterial :: nat
  innerEarMaterial :: nat
  whiskerMaterial :: nat

text \<open>
  The figure: the two stores, \<open>this.materials\<close>, the children of \<open>this.group\<close> in the
  order they were added, and the references \<open>this.body\<close>, \<open>this.head\<close>, \<open>this.tail\<close>
  (the position of the object among the children; \<open>None\<close> while unset).
\<close>

record CatModel =
  geometries :: "geometry list"
  material_store :: "material list"
  materials :: material_set
  children :: "object3d list"
  body :: "nat option"
  head :: "nat option"
  tail :: "nat option"

definition alloc :: "'a list \<Rightarrow> 'a \<Rightarrow> nat \<times> 'a list" where
  "alloc store obj = (length store, store @ [obj])"

text \<open>An update in place of the object behind a reference.\<close>

definition modify :: "nat \<Rightarrow> ('a \<Rightarrow> 'a) \<Rightarrow> 'a list \<Rightarrow> 'a list" where
  "modify i f xs = (if i < length xs then xs[i := f (xs ! i)] else xs)"

subsection \<open>Construction\<close>

definition new_geometry :: "geometry \<Rightarrow> CatModel \<Rightarrow> nat \<times> CatModel" where
  "new_geometry g this =
     (let (a, store) = alloc (geometries this) g in (a, this\<lparr>geometries := store\<rparr>))"

text \<open>\<open>this.group.add(ob)\<close>.\<close>

definition add :: "object3d \<Rightarrow> CatModel \<Rightarrow> CatModel" where
  "add ob this = this\<lparr>children := children this @ [ob]\<rparr>"

text \<open>
  The colours and surface parameters are those of the six constructor calls, in their
  order. A field that a material class does not have keeps the default and is never read.
\<close>

definition createMaterials :: "material list \<Rightarrow> material_set \<times> material list" where
  "createMaterials store0 =
     (let (blackFur, store1) = alloc store0
            ((default_material MeshStandardMaterial)
               \<lparr>mcolor := 0x1a1a1a, roughness := 0.6, metalness := 0.1,
                normalScale := (0.5, 0.5)\<rparr>);
          (whiteFur, store2) = alloc store1
            ((default_material MeshStandardMaterial)
               \<lparr>mcolor := 0xffffff, roughness := 0.6, metalness := 0.1,
                normalScale := (0.5, 0.5)\<rparr>);
          (eye, store3) = alloc store2
            ((default_material MeshStandardMaterial)
               \<lparr>mcolor := 0xffd700, roughness := 0.2, metalness := 0.0,
                emissive := 0xffaa00, emissiveIntensity := 0.2\<rparr>);
          (nose, store4) = alloc store3
            ((default_material MeshStandardMaterial)
               \<lparr>mcolor := 0xffb6c1, roughness := 0.4, metalness := 0.1\<rparr>);
          (innerEar, store5) = alloc store4
            ((default_material MeshStandardMaterial)
               \<lparr>mcolor := 0xffb6c1, roughness := 0.6, metalness := 0.0\<rparr>);
          (whisker, store6) = alloc store5
            ((default_material LineBasicMaterial)
               \<lparr>mcolor := 0xdddddd, mopacity := 0.6, transparent := True\<rparr>)
      in (\<lparr>blackFurMaterial = blackFur, whiteFurMaterial = whiteFur, eyeMaterial = eye,
           noseMaterial = nose, innerEarMaterial = innerEar, whiskerMaterial = whisker\<rparr>,
          store6))"

text \<open>
  \<open>createSplineTube(points, radius, radialSegments = 16, tubularSegments = 64)\<close>: an
  argument left out is \<open>None\<close>. The last argument of the tube constructor, \<open>closed\<close>, is
  the literal \<open>false\<close>. The result is the new geometry object; the caller's variable
  holds its address in the store.
\<close>

definition createSplineTube ::
  "vector3 list \<Rightarrow> real \<Rightarrow> nat option \<Rightarrow> nat option \<Rightarrow> geometry" where
  "createSplineTube points radius radialSegments tubularSegments =
     (let curve = CatmullRomCurve3 points;
          geometry = TubeGeometry curve
            (case tubularSegments of None \<Rightarrow> 64 | Some n \<Rightarrow> n) radius
            (case radialSegments of None \<Rightarrow> 16 | Some n \<Rightarrow> n) False
      in geometry)"

definition createBody :: "CatModel \<Rightarrow> CatModel" where
  "createBody this0 =
     (let (bodyGeometry, this1) =
            new_geometry (SphereGeometry 0.55 32 32 0 (pi * 2) 0 pi) this0;
          body' = (new_object Mesh ''body'' bodyGeometry (blackFurMaterial (materials this1)))
            \<lparr>scale := Vector3 0.85 0.8 1.3, position := Vector3 0 0.6 0.1,
             castShadow := True, receiveShadow := True\<rparr>;
          this2 = (add body' this1)\<lparr>body := Some (length (children this1))\<rparr>;
          (chestGeometry, this3) =
            new_geometry (SphereGeometry 0.4 32 16 0 (pi * 2) 0 (pi * 0.5)) this2;
          chest = (new_object Mesh ''chest'' chestGeometry (whiteFurMaterial (materials this3)))
            \<lparr>scale := Vector3 0.7 0.8 0.5, position := Vector3 0 0.5 0.55\<rparr>;
          chest = chest\<lparr>rotation := (rotation chest)\<lparr>rx := Num (- pi / 4)\<rparr>,
                        castShadow := True, receiveShadow := True\<rparr>
      in add chest this3)"

definition createHead :: "CatModel \<Rightarrow> CatModel" where
  "createHead this0 =
     (let (headGeometry, this1) =
            new_geometry (SphereGeometry 0.38 32 32 0 (pi * 2) 0 pi) this0;
          head' = (new_object Mesh ''head'' headGeometry (blackFurMaterial (materials this1)))
            \<lparr>scale := Vector3 1 0.9 0.9, position := Vector3 0 0.95 1.2,
             castShadow := True, receiveShadow := True\<rparr>;
          this2 = (add head' this1)\<lparr>head := Some (length (children this1))\<rparr>;
          (snoutGeometry, this3) =
            new_geometry (SphereGeometry 0.16 24 24 0 (pi * 2) 0 pi) this2;
          snout = (new_object Mesh ''snout'' snoutGeometry (whiteFurMaterial (materials this3)))
            \<lparr>scale := Vector3 1.1 0.8 1.0, position := Vector3 0 0.82 1.48,
             castShadow := True, receiveShadow := True\<rparr>;
          this4 = add snout this3;
          (blazeGeometry, this5) = new_geometry (ConeGeometry 0.08 0.3 16) this4;
          blaze = (new_object Mesh ''blaze'' blazeGeometry (whiteFurMaterial (materials this5)))
            \<lparr>position := Vector3 0 1.1 1.45\<rparr>;
          blaze = blaze\<lparr>rotation := (rotation blaze)\<lparr>rx := Num (- 0.5)\<rparr>\<rparr>;
          blaze = blaze\<lparr>scale := Vector3 1 1 0.5, receiveShadow := True\<rparr>
      in add blaze this5)"

definition createEars :: "CatModel \<Rightarrow> CatModel" where
  "createEars this0 =
     (let (leftEarGeometry, this1) = new_geometry (ConeGeometry 0.12 0.3 16) this0;
          leftEar = (new_object Mesh ''leftEar'' leftEarGeometry
                       (blackFurMaterial (materials this1)))
            \<lparr>position := Vector3 (- 0.25) 1.25 1.15\<rparr>;
          leftEar = leftEar\<lparr>rotation := (rotation leftEar)\<lparr>rz := Num (- 0.4)\<rparr>\<rparr>;
          leftEar = leftEar\<lparr>rotation := (rotation leftEar)\<lparr>rx := Num 0.2\<rparr>\<rparr>;
          leftEar = leftEar\<lparr>castShadow := True, receiveShadow := True\<rparr>;
          this2 = add leftEar this1;
          (innerEarGeometry, this3) = new_geometry (ConeGeometry 0.06 0.2 16) this2;
          leftInnerEar = (new_object Mesh ''leftInnerEar'' innerEarGeometry
                            (innerEarMaterial (materials this3)))
            \<lparr>position := Vector3 (- 0.25) 1.25 1.22\<rparr>;
          leftInnerEar = leftInnerEar
            \<lparr>rotation := (rotation leftInnerEar)\<lparr>rz := Num (- 0.4)\<rparr>\<rparr>;
          leftInnerEar = leftInnerEar
            \<lparr>rotation := (rotation leftInnerEar)\<lparr>rx := Num 0.2\<rparr>\<rparr>;
          leftInnerEar = leftInnerEar\<lparr>castShadow := True\<rparr>;
          this4 = add leftInnerEar this3;
          rightEar = (clone ''rightEar'' leftEar)\<lparr>position := Vector3 0.25 1.25 1.15\<rparr>;
          rightEar = rightEar\<lparr>rotation := (rotation rightEar)\<lparr>rz := Num 0.4\<rparr>\<rparr>;
          rightEar = rightEar\<lparr>castShadow := True, receiveShadow := True\<rparr>;
          this5 = add rightEar this4;
          rightInnerEar = (clone ''rightInnerEar'' leftInnerEar)
            \<lparr>position := Vector3 0.25 1.25 1.22\<rparr>;
          rightInnerEar = rightInnerEar
            \<lparr>rotation := (rotation rightInnerEar)\<lparr>rz := Num 0.4\<rparr>\<rparr>;
          rightInnerEar = rightInnerEar\<lparr>castShadow := True\<rparr>
      in add rightInnerEar this5)"

definition createPaws :: "CatModel \<Rightarrow> CatModel" where
  "createPaws this0 =
     (let (pawGeometry, this1) =
            new_geometry (Scaled (SphereGeometry 0.12 16 16 0 (pi * 2) 0 pi) 1 0.7 1.2) this0;
          positions = [(- 0.35, 0.05, 0.8), (0.35, 0.05, 0.8),
                       (- 0.4, 0.05, - 0.3), (0.4, 0.05, - 0.3)]
      in foldl (\<lambda>this (x, y, z).
                  add ((new_object Mesh ''paw'' pawGeometry (whiteFurMaterial (materials this)))
                         \<lparr>position := Vector3 x y z,
                          castShadow := True, receiveShadow := True\<rparr>) this)
           this1 positions)"

definition createLegs :: "CatModel \<Rightarrow> CatModel" where
  "createLegs this0 =
     (let legPointsFront = [Vector3 0 0 0, Vector3 0 (- 0.25) 0.05, Vector3 0 (- 0.45) 0];
          (legGeometryFront, this1) =
            new_geometry (createSplineTube legPointsFront 0.09 (Some 12) (Some 32)) this0;
          frontLeftLeg = (new_object Mesh ''frontLeftLeg'' legGeometryFront
                            (blackFurMaterial (materials this1)))
            \<lparr>position := Vector3 (- 0.35) 0.55 0.8, castShadow := True, receiveShadow := True\<rparr>;
          this2 = add frontLeftLeg this1;
          frontRightLeg = (clone ''frontRightLeg'' frontLeftLeg)
            \<lparr>position := Vector3 0.35 0.55 0.8, castShadow := True, receiveShadow := True\<rparr>;
          this3 = add frontRightLeg this2;
          legPointsBack = [Vector3 0 0 0, Vector3 0 (- 0.2) (- 0.1), Vector3 0 (- 0.4) 0];
          (legGeometryBack, this4) =
            new_geometry (createSplineTube legPointsBack 0.11 (Some 12) (Some 32)) this3;
          backLeftLeg = (new_object Mesh ''backLeftLeg'' legGeometryBack
                           (blackFurMaterial (materials this4)))
            \<lparr>position := Vector3 (- 0.4) 0.45 (- 0.4)\<rparr>;
          backLeftLeg = backLeftLeg\<lparr>rotation := (rotation backLeftLeg)\<lparr>rx := Num (- 0.3)\<rparr>,
                                    castShadow := True, receiveShadow := True\<rparr>;
          this5 = add backLeftLeg this4;
          backRightLeg = (clone ''backRightLeg'' backLeftLeg)
            \<lparr>position := Vector3 0.4 0.45 (- 0.4), castShadow := True, receiveShadow := True\<rparr>;
          this6 = add backRightLeg this5
      in createPaws this6)"

definition createTail :: "CatModel \<Rightarrow> CatModel" where
  "createTail this0 =
     (let tailPoints = [Vector3 0 0.5 (- 1.1), Vector3 0 0.7 (- 1.6),
                        Vector3 0.2 1.1 (- 1.9), Vector3 0.4 1.5 (- 2.0)];
          (tailGeometry, this1) =
            new_geometry (createSplineTube tailPoints 0.12 (Some 12) (Some 64)) this0;
          tail' = (new_object Mesh ''tail'' tailGeometry (blackFurMaterial (materials this1)))
            \<lparr>castShadow := True, receiveShadow := True\<rparr>;
          this2 = (add tail' this1)\<lparr>tail := Some (length (children this1))\<rparr>;
          (tipGeometry, this3) =
            new_geometry (SphereGeometry 0.11 16 16 0 (pi * 2) 0 pi) this2;
          tip = (new_object Mesh ''tip'' tipGeometry (whiteFurMaterial (materials this3)))
            \<lparr>position := Vector3 0.4 1.5 (- 2.0), castShadow := True\<rparr>
      in add tip this3)"

text \<open>The pupil material is made here, outside \<open>this.materials\<close>.\<close>

definition createEyes :: "CatModel \<Rightarrow> CatModel" where
  "createEyes this0 =
     (let (eyeGeometry, this1) =
            new_geometry (SphereGeometry 0.09 24 24 0 (pi * 2) 0 pi) this0;
          leftEye = (new_object Mesh ''leftEye'' eyeGeometry (eyeMaterial (materials this1)))
            \<lparr>position := Vector3 (- 0.16) 0.95 1.48\<rparr>;
          leftEye = leftEye\<lparr>rotation := (rotation leftEye)\<lparr>ry := Num 0.2\<rparr>,
                            castShadow := True\<rparr>;
          this2 = add leftEye this1;
          (pupilGeometry, this3) =
            new_geometry (SphereGeometry 0.05 16 16 0 (pi * 2) 0 pi) this2;
          (pupilMaterial, store) = alloc (material_store this3)
            ((default_material MeshStandardMaterial)\<lparr>mcolor := 0x000000, roughness := 0\<rparr>);
          this4 = this3\<lparr>material_store := store\<rparr>;
          leftPupil = (new_object Mesh ''leftPupil'' pupilGeometry pupilMaterial)
            \<lparr>position := Vector3 (- 0.16) 0.95 1.56, scale := Vector3 0.8 1.2 0.5\<rparr>;
          this5 = add leftPupil this4;
          rightEye = (clone ''rightEye'' leftEye)\<lparr>position := Vector3 0.16 0.95 1.48\<rparr>;
          rightEye = rightEye\<lparr>rotation := (rotation rightEye)\<lparr>ry := Num (- 0.2)\<rparr>,
                              castShadow := True\<rparr>;
          this6 = add rightEye this5;
          rightPupil = (clone ''rightPupil'' leftPupil)\<lparr>position := Vector3 0.16 0.95 1.56\<rparr>
      in add rightPupil this6)"

definition createNose :: "CatModel \<Rightarrow> CatModel" where
  "createNose this0 =
     (let (noseGeometry, this1) =
            new_geometry (SphereGeometry 0.04 16 16 0 (pi * 2) 0 pi) this0;
          nose = (new_object Mesh ''nose'' noseGeometry (noseMaterial (materials this1)))
            \<lparr>scale := Vector3 1 0.8 0.5, position := Vector3 0 0.88 1.63, castShadow := True\<rparr>
      in add nose this1)"

text \<open>
  The two loops of \<open>createWhiskers\<close>: strand \<open>i\<close> pushes its start point and its end point,
  six numbers, on the left side (\<open>side = -1\<close>) and then on the right side (\<open>side = 1\<close>).
\<close>

definition whisker_strand :: "real \<Rightarrow> nat \<Rightarrow> nat \<Rightarrow> real \<Rightarrow> real list" where
  "whisker_strand side whiskerCount i whiskerLength =
     (let yOffset = (real i - real whiskerCount / 2) * 0.02;
          angle = 0.2 + (real i * 0.1)
      in [side * 0.1, 0.85 + yOffset, 1.55,
          side * 0.1 + side * (cos angle * whiskerLength),
          0.85 + yOffset + sin angle * 0.1,
          1.55 + sin angle * 0.1])"

definition whisker_positions :: "nat \<Rightarrow> real \<Rightarrow> real list" where
  "whisker_positions whiskerCount whiskerLength =
     concat (map (\<lambda>i. whisker_strand (- 1) whiskerCount i whiskerLength) [0..<whiskerCount])
     @ concat (map (\<lambda>i. whisker_strand 1 whiskerCount i whiskerLength) [0..<whiskerCount])"

definition createWhiskers :: "CatModel \<Rightarrow> CatModel" where
  "createWhiskers this0 =
     (let whiskerCount = 6;
          whiskerLength = 0.35;
          (geometry, this1) =
            new_geometry (BufferGeometry (whisker_positions whiskerCount whiskerLength)) this0;
          whiskers = new_object LineSegments ''whiskers'' geometry
                       (whiskerMaterial (materials this1))
      in add whiskers this1)"

text \<open>
  The fur normal map. \<open>rnd k\<close> is the result of the \<open>k\<close>-th call of \<open>Math.random()\<close>;
  every stroke makes seven calls, in the order of the source.
\<close>

definition fur_stroke :: "(nat \<Rightarrow> real) \<Rightarrow> nat \<Rightarrow> stroke" where
  "fur_stroke rnd i =
     (let x = rnd (7 * i) * 512;
          y = rnd (7 * i + 1) * 512;
          len = rnd (7 * i + 2) * 5 + 2;
          angle = rnd (7 * i + 3) * pi * 2;
          r = nat \<lfloor>rnd (7 * i + 4) * 255\<rfloor>;
          g = nat \<lfloor>rnd (7 * i + 5) * 255\<rfloor>
      in \<lparr>strokeStyle = (r, g, 255, rnd (7 * i + 6) * 0.5 + 0.2), lineWidth = 1,
          moveTo = (x, y), lineTo = (x + cos angle * len, y + sin angle * len)\<rparr>)"

definition fur_canvas :: "(nat \<Rightarrow> real) \<Rightarrow> canvas" where
  "fur_canvas rnd =
     \<lparr>canvas_width = 512, canvas_height = 512, fillStyle = ''#8080ff'',
      strokes = map (fur_stroke rnd) [0..<10000]\<rparr>"

definition addFurDetails :: "(nat \<Rightarrow> real) \<Rightarrow> CatModel \<Rightarrow> CatModel" where
  "addFurDetails rnd this0 =
     (let normalMap' = \<lparr>tex_image = fur_canvas rnd, wrapS = RepeatWrapping,
                        wrapT = RepeatWrapping, tex_repeat = (4, 4)\<rparr>;
          this1 = this0\<lparr>material_store :=
            modify (blackFurMaterial (materials this0))
              (\<lambda>m. m\<lparr>normalMap := Some normalMap', version := version m + 1\<rparr>)
              (material_store this0)\<rparr>
      in this1\<lparr>material_store :=
            modify (whiteFurMaterial (materials this1))
              (\<lambda>m. m\<lparr>normalMap := Some normalMap', version := version m + 1\<rparr>)
              (material_store this1)\<rparr>)"

definition buildCat :: "(nat \<Rightarrow> real) \<Rightarrow> CatModel \<Rightarrow> CatModel" where
  "buildCat rnd this =
     addFurDetails rnd (createWhiskers (createNose (createEyes (createTail
       (createLegs (createEars (createHead (createBody this))))))))"

text \<open>The constructor \<open>new CatModel()\<close>.\<close>

definition new_CatModel :: "(nat \<Rightarrow> real) \<Rightarrow> CatModel" where
  "new_CatModel rnd =
     (let (ms, store) = createMaterials []
      in buildCat rnd
           \<lparr>geometries = [], material_store = store, materials = ms, children = [],
            body = None, head = None, tail = None\<rparr>)"

subsection \<open>Animation and customization\<close>

text \<open>
  \<open>animateIdle(time)\<close>, with the arithmetic of the source on numbers:
  \<open>Math.sin(time * 2) * 0.01\<close>, \<open>0.8 + breathe\<close>, \<open>Math.sin(time * 1.5) * 0.08\<close> and
  \<open>Math.cos(time * 1) * 0.05\<close>.
\<close>

definition animateIdle :: "number \<Rightarrow> CatModel \<Rightarrow> CatModel" where
  "animateIdle time this =
     (let breathe = js_times (Math_sin (js_times time (Num 2))) (Num 0.01);
          this1 = (case body this of
                     None \<Rightarrow> this
                   | Some b \<Rightarrow> this\<lparr>children :=
                       modify b (\<lambda>ob. ob\<lparr>scale := (scale ob)\<lparr>vy := js_plus (Num 0.8) breathe\<rparr>\<rparr>)
                         (children this)\<rparr>)
      in (case tail this1 of
            None \<Rightarrow> this1
          | Some t \<Rightarrow> this1\<lparr>children :=
              modify t (\<lambda>ob. ob\<lparr>rotation := (rotation ob)
                           \<lparr>rx := js_times (Math_sin (js_times time (Num 1.5))) (Num 0.08),
                            ry := js_times (Math_cos (js_times time (Num 1))) (Num 0.05)\<rparr>\<rparr>)
                (children this1)\<rparr>))"

definition animateSit :: "CatModel \<Rightarrow> CatModel" where
  "animateSit this =
     (case body this of
        None \<Rightarrow> this
      | Some b \<Rightarrow> this\<lparr>children :=
          modify b (\<lambda>ob. ob\<lparr>position := (position ob)\<lparr>vy := Num 0.5\<rparr>,
                            rotation := (rotation ob)\<lparr>rx := Num 0.25\<rparr>\<rparr>)
            (children this)\<rparr>)"

definition animateStand :: "CatModel \<Rightarrow> CatModel" where
  "animateStand this =
     (case body this of
        None \<Rightarrow> this
      | Some b \<Rightarrow> this\<lparr>children :=
          modify b (\<lambda>ob. ob\<lparr>position := (position ob)\<lparr>vy := Num 0.6\<rparr>,
                            rotation := (rotation ob)\<lparr>rx := Num 0\<rparr>\<rparr>)
            (children this)\<rparr>)"

definition setFurColor :: "nat \<Rightarrow> CatModel \<Rightarrow> CatModel" where
  "setFurColor color this =
     this\<lparr>material_store :=
       modify (blackFurMaterial (materials this)) (\<lambda>m. m\<lparr>mcolor := color\<rparr>)
         (material_store this)\<rparr>"

definition toggleWireframe :: "bool \<Rightarrow> CatModel \<Rightarrow> CatModel" where
  "toggleWireframe enabled this =
     (let this1 = this\<lparr>material_store :=
            modify (blackFurMaterial (materials this)) (\<lambda>m. m\<lparr>mwireframe := enabled\<rparr>)
              (material_store this)\<rparr>
      in this1\<lparr>material_store :=
            modify (whiteFurMaterial (materials this1)) (\<lambda>m. m\<lparr>mwireframe := enabled\<rparr>)
              (material_store this1)\<rparr>)"

subsection \<open>The pose switch of the viewer\<close>

text \<open>
  The value of the pose selector is whatever the control delivers; the \<open>switch\<close> compares
  it with the three strings by strict equality.
\<close>

datatype js_value = JString string | JNumber real | JBoolean bool | JUndefined | JNull

record CatViewer =
  currentAnimation :: js_value
  catModel :: CatModel

definition updateAnimation :: "CatViewer \<Rightarrow> CatViewer" where
  "updateAnimation this =
     (if currentAnimation this = JString ''sit''
        then this\<lparr>catModel := animateSit (catModel this)\<rparr>
      else if currentAnimation this = JString ''stand''
        then this\<lparr>catModel := animateStand (catModel this)\<rparr>
      else this\<lparr>catModel := animateStand (catModel this)\<rparr>)"

text \<open>The handler of the pose selector's change event.\<close>

definition animation_change :: "js_value \<Rightarrow> CatViewer \<Rightarrow> CatViewer" where
  "animation_change v this = updateAnimation (this\<lparr>currentAnimation := v\<rparr>)"

text \<open>One frame of \<open>animate\<close>, at the clock value \<open>time\<close>, as far as it touches the figure.\<close>

definition animate :: "number \<Rightarrow> CatViewer \<Rightarrow> CatViewer" where
  "animate time this =
     (if currentAnimation this = JString ''idle''
        then this\<lparr>catModel := animateIdle time (catModel this)\<rparr>
      else this)"

subsection \<open>Observations and well-formedness\<close>

definition body_scale_y :: "CatModel \<Rightarrow> number option" where
  "body_scale_y this = map_option (\<lambda>b. vy (scale (children this ! b))) (body this)"

definition tail_rotation :: "CatModel \<Rightarrow> euler option" where
  "tail_rotation this = map_option (\<lambda>t. rotation (children this ! t)) (tail this)"

text \<open>The colour a segment is drawn with: the colour of the material it refers to.\<close>

definition segment_color :: "CatModel \<Rightarrow> object3d \<Rightarrow> nat" where
  "segment_color this ob = mcolor (material_store this ! mat ob)"

definition role_handles :: "CatModel \<Rightarrow> nat list" where
  "role_handles this =
     [blackFurMaterial (materials this), whiteFurMaterial (materials this),
      eyeMaterial (materials this), noseMaterial (materials this),
      innerEarMaterial (materials this), whiskerMaterial (materials this)]"

text \<open>
  The six roles name six different materials of the store, as they do from construction
  on.
\<close>

definition materials_wf :: "CatModel \<Rightarrow> bool" where
  "materials_wf this \<longleftrightarrow>
     distinct (role_handles this)
     \<and> list_all (\<lambda>h. h < length (material_store this)) (role_handles this)"

text \<open>
  Reflection in the plane \<open>x = 0\<close>: the position changes the sign of \<open>x\<close>; of the Euler
  angles, the rotation about \<open>x\<close> stays and the rotations about \<open>y\<close> and \<open>z\<close> change sign.
\<close>

definition mirrored :: "object3d \<Rightarrow> object3d \<Rightarrow> bool" where
  "mirrored a b \<longleftrightarrow>
     vx (position b) = js_neg (vx (position a)) \<and> vy (position b) = vy (position a)
     \<and> vz (position b) = vz (position a)
     \<and> rx (rotation b) = rx (rotation a) \<and> ry (rotation b) = js_neg (ry (rotation a))
     \<and> rz (rotation b) = js_neg (rz (rotation a))"

text \<open>
  The pairs (original, clone) of \<open>createEars\<close>, \<open>createLegs\<close> and \<open>createEyes\<close>, by
  their places among the children: the outer ears, the inner ears, the front legs, the
  back legs, the eyes, the pupils.
\<close>

definition twin_pairs :: "(nat \<times> nat) list" where
  "twin_pairs = [(5, 7), (6, 8), (9, 10), (11, 12), (19, 21), (20, 22)]"

section \<open>Properties\<close>

subsection \<open>The constructed figure\<close>

lemma Vector3_sel [simp]:
  "vx (Vector3 a b c) = Num a" "vy (Vector3 a b c) = Num b" "vz (Vector3 a b c) = Num c"
  by (simp_all add: Vector3_def)

lemma Euler_sel [simp]:
  "rx (Euler a b c) = Num a" "ry (Euler a b c) = Num b" "rz (Euler a b c) = Num c"
  by (simp_all add: Euler_def)

lemmas build_defs = new_CatModel_def buildCat_def createMaterials_def createBody_def
  createHead_def createEars_def createLegs_def createPaws_def createTail_def createEyes_def
  createNose_def createWhiskers_def addFurDetails_def createSplineTube_def new_geometry_def
  add_def alloc_def new_object_def clone_def modify_def Let_def

text \<open>The figure that the constructor builds, written out.\<close>

lemma new_CatModel_built:
  "new_CatModel rnd =
   \<lparr>geometries =
     [SphereGeometry 0.55 32 32 0 (pi * 2) 0 pi,
      SphereGeometry 0.4 32 16 0 (pi * 2) 0 (pi * 0.5),
      SphereGeometry 0.38 32 32 0 (pi * 2) 0 pi,
      SphereGeometry 0.16 24 24 0 (pi * 2) 0 pi,
      ConeGeometry 0.08 0.3 16,
      ConeGeometry 0.12 0.3 16,
      ConeGeometry 0.06 0.2 16,
      TubeGeometry (CatmullRomCurve3
        [Vector3 0 0 0, Vector3 0 (- 0.25) 0.05, Vector3 0 (- 0.45) 0]) 32 0.09 12 False,
      TubeGeometry (CatmullRomCurve3
        [Vector3 0 0 0, Vector3 0 (- 0.2) (- 0.1), Vector3 0 (- 0.4) 0]) 32 0.11 12 False,
      Scaled (SphereGeometry 0.12 16 16 0 (pi * 2) 0 pi) 1 0.7 1.2,
      TubeGeometry (CatmullRomCurve3
        [Vector3 0 0.5 (- 1.1), Vector3 0 0.7 (- 1.6), Vector3 0.2 1.1 (- 1.9),
         Vector3 0.4 1.5 (- 2.0)]) 64 0.12 12 False,
      SphereGeometry 0.11 16 16 0 (pi * 2) 0 pi,
      SphereGeometry 0.09 24 24 0 (pi * 2) 0 pi,
      SphereGeometry 0.05 16 16 0 (pi * 2) 0 pi,
      SphereGeometry 0.04 16 16 0 (pi * 2) 0 pi,
      BufferGeometry (whisker_positions 6 0.35)],
    material_store =
     [(default_material MeshStandardMaterial)
        \<lparr>mcolor := 0x1a1a1a, roughness := 0.6, metalness := 0.1, normalScale := (0.5, 0.5),
         normalMap := Some \<lparr>tex_image = fur_canvas rnd, wrapS = RepeatWrapping,
                             wrapT = RepeatWrapping, tex_repeat = (4, 4)\<rparr>,
         version := 1\<rparr>,
      (default_material MeshStandardMaterial)
        \<lparr>mcolor := 0xffffff, roughness := 0.6, metalness := 0.1, normalScale := (0.5, 0.5),
         normalMap := Some \<lparr>tex_image = fur_canvas rnd, wrapS = RepeatWrapping,
                             wrapT = RepeatWrapping, tex_repeat = (4, 4)\<rparr>,
         version := 1\<rparr>,
      (default_material MeshStandardMaterial)
        \<lparr>mcolor := 0xffd700, roughness := 0.2, metalness := 0, emissive := 0xffaa00,
         emissiveIntensity := 0.2\<rparr>,
      (default_material MeshStandardMaterial)
        \<lparr>mcolor := 0xffb6c1, roughness := 0.4, metalness := 0.1\<rparr>,
      (default_material MeshStandardMaterial)
        \<lparr>mcolor := 0xffb6c1, roughness := 0.6, metalness := 0\<rparr>,
      (default_material LineBasicMaterial)
        \<lparr>mcolor := 0xdddddd, mopacity := 0.6, transparent := True\<rparr>,
      (default_material MeshStandardMaterial)\<lparr>mcolor := 0x000000, roughness := 0\<rparr>],
    materials =
      \<lparr>blackFurMaterial = 0, whiteFurMaterial = 1, eyeMaterial = 2, noseMaterial = 3,
       innerEarMaterial = 4, whiskerMaterial = 5\<rparr>,
    children =
     [\<lparr>oclass = Mesh, name = ''body'', geom = 0, mat = 0,
       position = Vector3 0 0.6 0.1, rotation = Euler 0 0 0,
       scale = Vector3 0.85 0.8 1.3, castShadow = True, receiveShadow = True\<rparr>,
      \<lparr>oclass = Mesh, name = ''chest'', geom = 1, mat = 1,
       position = Vector3 0 0.5 0.55, rotation = Euler (- pi / 4) 0 0,
       scale = Vector3 0.7 0.8 0.5, castShadow = True, receiveShadow = True\<rparr>,
      \<lparr>oclass = Mesh, name = ''head'', geom = 2, mat = 0,
       position = Vector3 0 0.95 1.2, rotation = Euler 0 0 0,
       scale = Vector3 1 0.9 0.9, castShadow = True, receiveShadow = True\<rparr>,
      \<lparr>oclass = Mesh, name = ''snout'', geom = 3, mat = 1,
       position = Vector3 0 0.82 1.48, rotation = Euler 0 0 0,
       scale = Vector3 1.1 0.8 1.0, castShadow = True, receiveShadow = True\<rparr>,
      \<lparr>oclass = Mesh, name = ''blaze'', geom = 4, mat = 1,
       position = Vector3 0 1.1 1.45, rotation = Euler (- 0.5) 0 0,
       scale = Vector3 1 1 0.5, castShadow = False, receiveShadow = True\<rparr>,
      \<lparr>oclass = Mesh, name = ''leftEar'', geom = 5, mat = 0,
       position = Vector3 (- 0.25) 1.25 1.15, rotation = Euler 0.2 0 (- 0.4),
       scale = Vector3 1 1 1, castShadow = True, receiveShadow = True\<rparr>,
      \<lparr>oclass = Mesh, name = ''leftInnerEar'', geom = 6, mat = 4,
       position = Vector3 (- 0.25) 1.25 1.22, rotation = Euler 0.2 0 (- 0.4),
       scale = Vector3 1 1 1, castShadow = True, receiveShadow = False\<rparr>,
      \<lparr>oclass = Mesh, name = ''rightEar'', geom = 5, mat = 0,
       position = Vector3 0.25 1.25 1.15, rotation = Euler 0.2 0 0.4,
       scale = Vector3 1 1 1, castShadow = True, receiveShadow = True\<rparr>,
      \<lparr>oclass = Mesh, name = ''rightInnerEar'', geom = 6, mat = 4,
       position = Vector3 0.25 1.25 1.22, rotation = Euler 0.2 0 0.4,
       scale = Vector3 1 1 1, castShadow = True, receiveShadow = False\<rparr>,
      \<lparr>oclass = Mesh, name = ''frontLeftLeg'', geom = 7, mat = 0,
       position = Vector3 (- 0.35) 0.55 0.8, rotation = Euler 0 0 0,
       scale = Vector3 1 1 1, castShadow = True, receiveShadow = True\<rparr>,
      \<lparr>oclass = Mesh, name = ''frontRightLeg'', geom = 7, mat = 0,
       position = Vector3 0.35 0.55 0.8, rotation = Euler 0 0 0,
       scale = Vector3 1 1 1, castShadow = True, receiveShadow = True\<rparr>,
      \<lparr>oclass = Mesh, name = ''backLeftLeg'', geom = 8, mat = 0,
       position = Vector3 (- 0.4) 0.45 (- 0.4), rotation = Euler (- 0.3) 0 0,
       scale = Vector3 1 1 1, castShadow = True, receiveShadow = True\<rparr>,
      \<lparr>oclass = Mesh, name = ''backRightLeg'', geom = 8, mat = 0,
       position = Vector3 0.4 0.45 (- 0.4), rotation = Euler (- 0.3) 0 0,
       scale = Vector3 1 1 1, castShadow = True, receiveShadow = True\<rparr>,
      \<lparr>oclass = Mesh, name = ''paw'', geom = 9, mat = 1,
       position = Vector3 (- 0.35) 0.05 0.8, rotation = Euler 0 0 0,
       scale = Vector3 1 1 1, castShadow = True, receiveShadow = True\<rparr>,
      \<lparr>oclass = Mesh, name = ''paw'', geom = 9, mat = 1,
       position = Vector3 0.35 0.05 0.8, rotation = Euler 0 0 0,
       scale = Vector3 1 1 1, castShadow = True, receiveShadow = True\<rparr>,
      \<lparr>oclass = Mesh, name = ''paw'', geom = 9, mat = 1,
       position = Vector3 (- 0.4) 0.05 (- 0.3), rotation = Euler 0 0 0,
       scale = Vector3 1 1 1, castShadow = True, receiveShadow = True\<rparr>,
      \<lparr>oclass = Mesh, name = ''paw'', geom = 9, mat = 1,
       position = Vector3 0.4 0.05 (- 0.3), rotation = Euler 0 0 0,
       scale = Vector3 1 1 1, castShadow = True, receiveShadow = True\<rparr>,
      \<lparr>oclass = Mesh, name = ''tail'', geom = 10, mat = 0,
       position = Vector3 0 0 0, rotation = Euler 0 0 0,
       scale = Vector3 1 1 1, castShadow = True, receiveShadow = True\<rparr>,
      \<lparr>oclass = Mesh, name = ''tip'', geom = 11, mat = 1,
       position = Vector3 0.4 1.5 (- 2.0), rotation = Euler 0 0 0,
       scale = Vector3 1 1 1, castShadow = True, receiveShadow = False\<rparr>,
      \<lparr>oclass = Mesh, name = ''leftEye'', geom = 12, mat = 2,
       position = Vector3 (- 0.16) 0.95 1.48, rotation = Euler 0 0.2 0,
       scale = Vector3 1 1 1, castShadow = True, receiveShadow = False\<rparr>,
      \<lparr>oclass = Mesh, name = ''leftPupil'', geom = 13, mat = 6,
       position = Vector3 (- 0.16) 0.95 1.56, rotation = Euler 0 0 0,
       scale = Vector3 0.8 1.2 0.5, castShadow = False, receiveShadow = False\<rparr>,
      \<lparr>oclass = Mesh, name = ''rightEye'', geom = 12, mat = 2,
       position = Vector3 0.16 0.95 1.48, rotation = Euler 0 (- 0.2) 0,
       scale = Vector3 1 1 1, castShadow = True, receiveShadow = False\<rparr>,
      \<lparr>oclass = Mesh, name = ''rightPupil'', geom = 13, mat = 6,
       position = Vector3 0.16 0.95 1.56, rotation = Euler 0 0 0,
       scale = Vector3 0.8 1.2 0.5, castShadow = False, receiveShadow = False\<rparr>,
      \<lparr>oclass = Mesh, name = ''nose'', geom = 14, mat = 3,
       position = Vector3 0 0.88 1.63, rotation = Euler 0 0 0,
       scale = Vector3 1 0.8 0.5, castShadow = True, receiveShadow = False\<rparr>,
      \<lparr>oclass = LineSegments, name = ''whiskers'', geom = 15, mat = 5,
       position = Vector3 0 0 0, rotation = Euler 0 0 0,
       scale = Vector3 1 1 1, castShadow = False, receiveShadow = False\<rparr>],
    body = Some 0, head = Some 2, tail = Some 17\<rparr>"
  by (simp add: build_defs default_material_def Euler_def)

subsection \<open>Updates in place\<close>

lemma modify_twice: "modify i f (modify i g xs) = modify i (\<lambda>x. f (g x)) xs"
  by (simp add: modify_def)

lemma length_modify: "length (modify i f xs) = length xs"
  by (simp add: modify_def)

lemma nth_modify:
  "modify i f xs ! j = (if j = i \<and> i < length xs then f (xs ! i) else xs ! j)"
  by (simp add: modify_def nth_list_update)

lemma fresh_refs:
  "body (new_CatModel rnd) = Some 0"
  "head (new_CatModel rnd) = Some 2"
  "tail (new_CatModel rnd) = Some 17"
  "length (children (new_CatModel rnd)) = 25"
  "length (material_store (new_CatModel rnd)) = 7"
  "materials (new_CatModel rnd) =
     \<lparr>blackFurMaterial = 0, whiteFurMaterial = 1, eyeMaterial = 2, noseMaterial = 3,
      innerEarMaterial = 4, whiskerMaterial = 5\<rparr>"
  by (simp_all add: new_CatModel_built)

subsection \<open>Arithmetic without overflow\<close>

lemma MAX_VALUE_ge: "2 \<le> MAX_VALUE"
proof -
  have "(1::real) \<le> 2 ^ 53 - 1" by simp
  moreover have "(2::real) \<le> 2 ^ 971"
    using power_increasing [of 1 971 "2::real"] by simp
  ultimately have "(1::real) * 2 \<le> (2 ^ 53 - 1) * 2 ^ 971"
    by (intro mult_mono) simp_all
  then show ?thesis by (simp add: MAX_VALUE_def)
qed

lemma MAX_VALUE_less: "MAX_VALUE < 2 ^ 1024"
proof -
  have "MAX_VALUE < 2 ^ 53 * 2 ^ 971"
    unfolding MAX_VALUE_def by (intro mult_strict_right_mono) simp_all
  also have "\<dots> = (2::real) ^ 1024"
    by (simp flip: power_add)
  finally show ?thesis .
qed

lemma overflow_finite: "\<bar>x\<bar> \<le> MAX_VALUE \<Longrightarrow> overflow x = Num x"
  by (auto simp: overflow_def)

lemma overflow_infinite:
  "\<not> \<bar>x\<bar> \<le> MAX_VALUE \<Longrightarrow> overflow x = PosInfinity \<or> overflow x = NegInfinity"
  by (auto simp: overflow_def)

text \<open>
  A sine or a cosine scaled by a small amplitude: the value where the argument does not
  overflow, \<open>NaN\<close> where it does.
\<close>

lemma scaled_sin:
  assumes "\<bar>a\<bar> \<le> 1"
  shows "js_times (Math_sin (js_times (Num t) (Num k))) (Num a)
           = (if \<bar>t * k\<bar> \<le> MAX_VALUE then Num (sin (t * k) * a) else NaN)"
proof (cases "\<bar>t * k\<bar> \<le> MAX_VALUE")
  case True
  have "\<bar>sin (t * k) * a\<bar> \<le> 1 * 1"
    unfolding abs_mult using assms by (intro mult_mono) simp_all
  with MAX_VALUE_ge have "\<bar>sin (t * k) * a\<bar> \<le> MAX_VALUE" by linarith
  with True show ?thesis by (simp add: overflow_finite)
next
  case False
  from overflow_infinite [OF this] False show ?thesis by auto
qed

lemma scaled_cos:
  assumes "\<bar>a\<bar> \<le> 1"
  shows "js_times (Math_cos (js_times (Num t) (Num k))) (Num a)
           = (if \<bar>t * k\<bar> \<le> MAX_VALUE then Num (cos (t * k) * a) else NaN)"
proof (cases "\<bar>t * k\<bar> \<le> MAX_VALUE")
  case True
  have "\<bar>cos (t * k) * a\<bar> \<le> 1 * 1"
    unfolding abs_mult using assms by (intro mult_mono) simp_all
  with MAX_VALUE_ge have "\<bar>cos (t * k) * a\<bar> \<le> MAX_VALUE" by linarith
  with True show ?thesis by (simp add: overflow_finite)
next
  case False
  from overflow_infinite [OF this] False show ?thesis by auto
qed

lemma breathe_value:
  "js_plus (Num 0.8) (js_times (Math_sin (js_times (Num t) (Num 2))) (Num 0.01))
     = (if \<bar>t * 2\<bar> \<le> MAX_VALUE then Num (0.8 + sin (t * 2) * 0.01) else NaN)"
proof -
  have br: "js_times (Math_sin (js_times (Num t) (Num 2))) (Num 0.01)
      = (if \<bar>t * 2\<bar> \<le> MAX_VALUE then Num (sin (t * 2) * 0.01) else NaN)"
    by (rule scaled_sin) simp
  show ?thesis
  proof (cases "\<bar>t * 2\<bar> \<le> MAX_VALUE")
    case True
    have "\<bar>0.8 + sin (t * 2) * 0.01\<bar> \<le> 2"
      using sin_ge_minus_one [of "t * 2"] sin_le_one [of "t * 2"]
      by (simp add: abs_le_iff del: sin_ge_minus_one sin_le_one)
    with MAX_VALUE_ge have "\<bar>0.8 + sin (t * 2) * 0.01\<bar> \<le> MAX_VALUE"
      by linarith
    with True show ?thesis
      unfolding br by (simp add: overflow_finite)
  next
    case False
    then show ?thesis
      unfolding br by simp
  qed
qed

subsection \<open>Idle animation\<close>

lemma idle_twice_children:
  fixes F1 F2 G1 G2 :: "object3d \<Rightarrow> object3d"
  assumes "\<And>x. F2 (F1 x) = F2 x" "\<And>x. G2 (G1 x) = G2 x" "\<And>x. F2 (G1 x) = G1 (F2 x)"
  shows "modify t G2 (modify b F2 (modify t G1 (modify b F1 xs))) = modify t G2 (modify b F2 xs)"
  by (rule nth_equalityI) (auto simp: nth_modify length_modify assms)

text \<open>A later call of \<open>animateIdle\<close> overwrites all that an earlier call wrote.\<close>

lemma animateIdle_absorbs: "animateIdle t2 (animateIdle t1 this) = animateIdle t2 this"
proof (cases "body this")
  case None
  then show ?thesis
    by (cases "tail this") (simp_all add: animateIdle_def Let_def modify_twice)
next
  case (Some b)
  show ?thesis
  proof (cases "tail this")
    case None
    with Some show ?thesis by (simp add: animateIdle_def Let_def modify_twice)
  next
    case (Some k)
    with \<open>body this = Some b\<close> show ?thesis
      by (simp add: animateIdle_def Let_def idle_twice_children)
  qed
qed

lemma body_scale_y_animateIdle:
  "body this = Some b \<Longrightarrow> b < length (children this) \<Longrightarrow>
   body_scale_y (animateIdle (Num t) this)
     = Some (if \<bar>t * 2\<bar> \<le> MAX_VALUE then Num (0.8 + sin (t * 2) * 0.01) else NaN)"
  unfolding animateIdle_def Let_def breathe_value
  by (auto simp: body_scale_y_def nth_modify length_modify
      simp del: js_times.simps Math_sin.simps Math_cos.simps split: option.splits)

lemma tail_rotation_animateIdle:
  assumes "tail this = Some k" and "k < length (children this)"
  shows "map_option rx (tail_rotation (animateIdle (Num t) this))
     = Some (if \<bar>t * 1.5\<bar> \<le> MAX_VALUE then Num (sin (t * 1.5) * 0.08) else NaN)
   \<and> map_option ry (tail_rotation (animateIdle (Num t) this))
     = Some (if \<bar>t * 1\<bar> \<le> MAX_VALUE then Num (cos (t * 1) * 0.05) else NaN)"
proof -
  have sway: "js_times (Math_sin (js_times (Num t) (Num 1.5))) (Num 0.08)
      = (if \<bar>t * 1.5\<bar> \<le> MAX_VALUE then Num (sin (t * 1.5) * 0.08) else NaN)"
    "js_times (Math_cos (js_times (Num t) (Num 1))) (Num 0.05)
      = (if \<bar>t * 1\<bar> \<le> MAX_VALUE then Num (cos (t * 1) * 0.05) else NaN)"
    by (rule scaled_sin, simp, rule scaled_cos, simp)
  show ?thesis
    using assms unfolding animateIdle_def Let_def sway
    by (auto simp: tail_rotation_def nth_modify length_modify
        simp del: js_times.simps js_plus.simps Math_sin.simps Math_cos.simps
        split: option.splits)
qed

text \<open>
  C1: for elapsed times \<open>t1 < t2\<close>, \<open>animateIdle(t1)\<close> followed by \<open>animateIdle(t2)\<close> on
  a freshly constructed figure leaves the body's vertical scale and the tail's rotation
  that \<open>animateIdle(t2)\<close> alone leaves there, namely the absolute values computed from
  \<open>t2\<close> (\<open>NaN\<close> where a product with \<open>t2\<close> overflows); the two runs end in the same state
  of the whole figure, from any state.
\<close>

theorem idle_no_drift:
  assumes "t1 < t2"
  shows "body_scale_y (animateIdle (Num t2) (animateIdle (Num t1) (new_CatModel rnd)))
           = body_scale_y (animateIdle (Num t2) (new_CatModel rnd))
       \<and> tail_rotation (animateIdle (Num t2) (animateIdle (Num t1) (new_CatModel rnd)))
           = tail_rotation (animateIdle (Num t2) (new_CatModel rnd))
       \<and> body_scale_y (animateIdle (Num t2) (new_CatModel rnd))
           = Some (if \<bar>t2 * 2\<bar> \<le> MAX_VALUE then Num (0.8 + sin (t2 * 2) * 0.01) else NaN)
       \<and> map_option rx (tail_rotation (animateIdle (Num t2) (new_CatModel rnd)))
           = Some (if \<bar>t2 * 1.5\<bar> \<le> MAX_VALUE then Num (sin (t2 * 1.5) * 0.08) else NaN)
       \<and> map_option ry (tail_rotation (animateIdle (Num t2) (new_CatModel rnd)))
           = Some (if \<bar>t2 * 1\<bar> \<le> MAX_VALUE then Num (cos (t2 * 1) * 0.05) else NaN)
       \<and> animateIdle (Num t2) (animateIdle (Num t1) this) = animateIdle (Num t2) this"
proof -
  have "body_scale_y (animateIdle (Num t2) (new_CatModel rnd))
      = Some (if \<bar>t2 * 2\<bar> \<le> MAX_VALUE then Num (0.8 + sin (t2 * 2) * 0.01) else NaN)"
    by (rule body_scale_y_animateIdle [where b = 0]) (simp_all add: fresh_refs)
  moreover have "map_option rx (tail_rotation (animateIdle (Num t2) (new_CatModel rnd)))
           = Some (if \<bar>t2 * 1.5\<bar> \<le> MAX_VALUE then Num (sin (t2 * 1.5) * 0.08) else NaN)
       \<and> map_option ry (tail_rotation (animateIdle (Num t2) (new_CatModel rnd)))
           = Some (if \<bar>t2 * 1\<bar> \<le> MAX_VALUE then Num (cos (t2 * 1) * 0.05) else NaN)"
    by (rule tail_rotation_animateIdle [where k = 17]) (simp_all add: fresh_refs)
  ultimately show ?thesis
    by (simp only: animateIdle_absorbs simp_thms)
qed

theorem idle_no_drift_witness:
  "(0::real) < 1
   \<and> body_scale_y (animateIdle (Num 1) (animateIdle (Num 0) (new_CatModel (\<lambda>k. 0))))
       = body_scale_y (animateIdle (Num 1) (new_CatModel (\<lambda>k. 0)))
   \<and> tail_rotation (animateIdle (Num 1) (animateIdle (Num 0) (new_CatModel (\<lambda>k. 0))))
       = tail_rotation (animateIdle (Num 1) (new_CatModel (\<lambda>k. 0)))
   \<and> body_scale_y (animateIdle (Num 1) (new_CatModel (\<lambda>k. 0)))
       = Some (Num (0.8 + sin 2 * 0.01))"
  using idle_no_drift [of 0 1 "\<lambda>k. 0"] MAX_VALUE_ge by simp

text \<open>
  C9 fails as the specification states it, for every real elapsed time: at the time
  \<open>2^1023\<close>, a double, the product \<open>time * 2\<close> overflows, its sine is \<open>NaN\<close>, and the body's
  vertical scale after \<open>animateIdle\<close> is \<open>NaN\<close>, which is in no interval.
\<close>

theorem breathing_scale_overflow:
  "body_scale_y (animateIdle (Num (2 ^ 1023)) (new_CatModel (\<lambda>k. 0))) = Some NaN"
proof -
  have "MAX_VALUE < 2 ^ 1023 * 2"
    using MAX_VALUE_less by simp
  then have "\<not> \<bar>(2::real) ^ 1023 * 2\<bar> \<le> MAX_VALUE"
    by simp
  moreover have "body_scale_y (animateIdle (Num (2 ^ 1023)) (new_CatModel (\<lambda>k. 0)))
      = Some (if \<bar>(2::real) ^ 1023 * 2\<bar> \<le> MAX_VALUE
              then Num (0.8 + sin (2 ^ 1023 * 2) * 0.01) else NaN)"
    by (rule body_scale_y_animateIdle [where b = 0]) (simp_all add: fresh_refs)
  ultimately show ?thesis
    by (simp only: if_False)
qed

text \<open>
  C9, amended: for every elapsed time \<open>t\<close> whose double \<open>2 * t\<close> does not overflow, that
  is \<open>|2 * t| \<le> Number.MAX_VALUE\<close> (about \<open>1.8e308\<close>), negative and zero included, after
  \<open>animateIdle(t)\<close> the body's vertical scale is \<open>0.8 + 0.01 * sin(2 * t)\<close> and lies
  between \<open>0.8 - 0.01\<close> and \<open>0.8 + 0.01\<close>, that is, in \<open>[0.79, 0.81]\<close>. The figure is any
  figure whose body reference is set, as it is from construction on.
\<close>

theorem breathing_scale_bounds:
  assumes "body this = Some b" and "b < length (children this)"
    and "\<bar>2 * t\<bar> \<le> MAX_VALUE"
  shows "\<exists>s. body_scale_y (animateIdle (Num t) this) = Some (Num s)
           \<and> s = 0.8 + 0.01 * sin (2 * t)
           \<and> 0.8 - 0.01 \<le> s \<and> s \<le> 0.8 + 0.01 \<and> 0.79 \<le> s \<and> s \<le> 0.81"
proof -
  define s where "s = 0.8 + 0.01 * sin (2 * t)"
  have "0.8 + sin (t * 2) * 0.01 = s"
    by (simp add: s_def mult.commute)
  moreover have "\<bar>t * 2\<bar> \<le> MAX_VALUE"
    using assms(3) by (simp add: mult.commute)
  ultimately have val: "body_scale_y (animateIdle (Num t) this) = Some (Num s)"
    using body_scale_y_animateIdle [OF assms(1,2), of t] by simp
  have lo: "0.79 \<le> s" "0.8 - 0.01 \<le> s"
    using sin_ge_minus_one [of "2 * t"] by (simp_all add: s_def del: sin_ge_minus_one)
  have hi: "s \<le> 0.81" "s \<le> 0.8 + 0.01"
    using sin_le_one [of "2 * t"] by (simp_all add: s_def del: sin_le_one)
  with val lo hi show ?thesis
    unfolding s_def by blast
qed

theorem breathing_scale_bounds_witness:
  "body (new_CatModel (\<lambda>k. 0)) = Some 0
   \<and> 0 < length (children (new_CatModel (\<lambda>k. 0)))
   \<and> \<bar>2 * (- 1 :: real)\<bar> \<le> MAX_VALUE \<and> \<bar>2 * (0 :: real)\<bar> \<le> MAX_VALUE
   \<and> (\<exists>s. body_scale_y (animateIdle (Num (- 1)) (new_CatModel (\<lambda>k. 0))) = Some (Num s)
          \<and> s = 0.8 + 0.01 * sin (2 * (- 1)) \<and> 0.79 \<le> s \<and> s \<le> 0.81)
   \<and> body_scale_y (animateIdle (Num 0) (new_CatModel (\<lambda>k. 0))) = Some (Num 0.8)"
proof -
  have b: "body (new_CatModel (\<lambda>k. 0)) = Some 0"
    and l: "0 < length (children (new_CatModel (\<lambda>k. 0)))"
    by (simp_all add: fresh_refs)
  have m: "\<bar>2 * (- 1 :: real)\<bar> \<le> MAX_VALUE" and z: "\<bar>2 * (0 :: real)\<bar> \<le> MAX_VALUE"
    using MAX_VALUE_ge by simp_all
  from breathing_scale_bounds [OF b l m] breathing_scale_bounds [OF b l z] b l m z
  show ?thesis by auto
qed

lemma fresh_children_refs:
  "map (\<lambda>ob. (name ob, mat ob, geom ob)) (children (new_CatModel rnd)) =
     [(''body'', 0, 0), (''chest'', 1, 1), (''head'', 0, 2), (''snout'', 1, 3),
      (''blaze'', 1, 4), (''leftEar'', 0, 5), (''leftInnerEar'', 4, 6), (''rightEar'', 0, 5),
      (''rightInnerEar'', 4, 6), (''frontLeftLeg'', 0, 7), (''frontRightLeg'', 0, 7),
      (''backLeftLeg'', 0, 8), (''backRightLeg'', 0, 8), (''paw'', 1, 9), (''paw'', 1, 9),
      (''paw'', 1, 9), (''paw'', 1, 9), (''tail'', 0, 10), (''tip'', 1, 11),
      (''leftEye'', 2, 12), (''leftPupil'', 6, 13), (''rightEye'', 2, 12),
      (''rightPupil'', 6, 13), (''nose'', 3, 14), (''whiskers'', 5, 15)]"
  by (simp add: new_CatModel_built)

lemma fresh_colors:
  "map mcolor (material_store (new_CatModel rnd)) =
     [0x1a1a1a, 0xffffff, 0xffd700, 0xffb6c1, 0xffb6c1, 0xdddddd, 0x000000]"
  by (simp add: new_CatModel_built default_material_def)

lemma materials_wf_fresh: "materials_wf (new_CatModel rnd)"
  by (simp add: materials_wf_def role_handles_def fresh_refs)

text \<open>No operation of the figure changes which materials the roles name.\<close>

lemma materials_wf_kept:
  assumes "materials_wf this"
  shows "materials_wf (setFurColor c this)" "materials_wf (toggleWireframe e this)"
    "materials_wf (animateIdle t this)" "materials_wf (animateSit this)"
    "materials_wf (animateStand this)"
  using assms
  by (simp_all add: materials_wf_def role_handles_def setFurColor_def toggleWireframe_def
      animateIdle_def animateSit_def animateStand_def Let_def length_modify
      split: option.splits)

subsection \<open>Materials\<close>

text \<open>
  C2: construction makes one material for each of the six roles, six different objects
  of the material store, and every segment of a fur role refers to the one material of
  its role: the black-fur material is the material of exactly the body, the head, the
  two outer ears, the four legs and the tail, the white-fur material that of exactly the
  chest, the snout, the blaze, the four paws and the tail tip. The store holds one more
  material, outside the six roles, made in \<open>createEyes\<close> for the two pupils.
\<close>

theorem one_material_per_role:
  "role_handles (new_CatModel rnd) = [0, 1, 2, 3, 4, 5]
   \<and> distinct (role_handles (new_CatModel rnd))
   \<and> length (material_store (new_CatModel rnd)) = 7
   \<and> map (\<lambda>h. mcolor (material_store (new_CatModel rnd) ! h)) (role_handles (new_CatModel rnd))
       = [0x1a1a1a, 0xffffff, 0xffd700, 0xffb6c1, 0xffb6c1, 0xdddddd]
   \<and> map name (filter (\<lambda>ob. mat ob = blackFurMaterial (materials (new_CatModel rnd)))
                  (children (new_CatModel rnd)))
       = [''body'', ''head'', ''leftEar'', ''rightEar'', ''frontLeftLeg'', ''frontRightLeg'',
          ''backLeftLeg'', ''backRightLeg'', ''tail'']
   \<and> map name (filter (\<lambda>ob. mat ob = whiteFurMaterial (materials (new_CatModel rnd)))
                  (children (new_CatModel rnd)))
       = [''chest'', ''snout'', ''blaze'', ''paw'', ''paw'', ''paw'', ''paw'', ''tip'']
   \<and> map name (filter (\<lambda>ob. mat ob \<notin> set (role_handles (new_CatModel rnd)))
                  (children (new_CatModel rnd)))
       = [''leftPupil'', ''rightPupil'']"
  by (simp add: new_CatModel_built role_handles_def default_material_def)

text \<open>
  C3: \<open>setFurColor(c)\<close> sets the colour of the black-fur material to \<open>c\<close> and changes
  nothing else of it; the white-fur, eye, nose, inner-ear and whisker materials and every
  other material stay as they are; so a segment is drawn with \<open>c\<close> if it refers to the
  black-fur material and with its old colour otherwise. The figure is any figure whose
  six roles name six different materials of the store.
\<close>

theorem setFurColor_frame:
  assumes "materials_wf this"
  shows "mcolor (material_store (setFurColor c this) ! blackFurMaterial (materials this)) = c
       \<and> material_store (setFurColor c this) ! blackFurMaterial (materials this)
           = (material_store this ! blackFurMaterial (materials this))\<lparr>mcolor := c\<rparr>
       \<and> list_all (\<lambda>h. material_store (setFurColor c this) ! h = material_store this ! h)
           [whiteFurMaterial (materials this), eyeMaterial (materials this),
            noseMaterial (materials this), innerEarMaterial (materials this),
            whiskerMaterial (materials this)]
       \<and> (\<forall>a. a \<noteq> blackFurMaterial (materials this) \<longrightarrow>
              material_store (setFurColor c this) ! a = material_store this ! a)
       \<and> (\<forall>ob. segment_color (setFurColor c this) ob
              = (if mat ob = blackFurMaterial (materials this) then c
                 else segment_color this ob))
       \<and> length (material_store (setFurColor c this)) = length (material_store this)
       \<and> materials (setFurColor c this) = materials this
       \<and> children (setFurColor c this) = children this
       \<and> geometries (setFurColor c this) = geometries this"
  using assms
  by (auto simp: materials_wf_def role_handles_def setFurColor_def segment_color_def
      nth_modify length_modify)

theorem setFurColor_frame_witness:
  "materials_wf (new_CatModel (\<lambda>k. 0))
   \<and> map mcolor (material_store (setFurColor 0xff0000 (new_CatModel (\<lambda>k. 0))))
       = [0xff0000, 0xffffff, 0xffd700, 0xffb6c1, 0xffb6c1, 0xdddddd, 0x000000]
   \<and> map (segment_color (setFurColor 0xff0000 (new_CatModel (\<lambda>k. 0))))
         (children (new_CatModel (\<lambda>k. 0)))
       = [0xff0000, 0xffffff, 0xff0000, 0xffffff, 0xffffff, 0xff0000, 0xffb6c1, 0xff0000,
          0xffb6c1, 0xff0000, 0xff0000, 0xff0000, 0xff0000, 0xffffff, 0xffffff, 0xffffff,
          0xffffff, 0xff0000, 0xffffff, 0xffd700, 0x000000, 0xffd700, 0x000000, 0xffb6c1,
          0xdddddd]"
proof -
  let ?fresh = "new_CatModel (\<lambda>k. 0)"
  have wf: "materials_wf ?fresh"
    by (rule materials_wf_fresh)
  have seg: "\<forall>ob. segment_color (setFurColor 0xff0000 ?fresh) ob
               = (if mat ob = 0 then 0xff0000 else segment_color ?fresh ob)"
    using setFurColor_frame [OF wf, of "0xff0000"] by (simp add: fresh_refs)
  have stored: "map mcolor (material_store (setFurColor 0xff0000 ?fresh))
       = [0xff0000, 0xffffff, 0xffd700, 0xffb6c1, 0xffb6c1, 0xdddddd, 0x000000]"
    by (simp add: setFurColor_def modify_def new_CatModel_built default_material_def)
  have "map (segment_color (setFurColor 0xff0000 ?fresh)) (children ?fresh)
      = map (\<lambda>ob. if mat ob = 0 then 0xff0000 else segment_color ?fresh ob) (children ?fresh)"
    using seg by simp
  also have "\<dots> = [0xff0000, 0xffffff, 0xff0000, 0xffffff, 0xffffff, 0xff0000, 0xffb6c1,
          0xff0000, 0xffb6c1, 0xff0000, 0xff0000, 0xff0000, 0xff0000, 0xffffff, 0xffffff,
          0xffffff, 0xffffff, 0xff0000, 0xffffff, 0xffd700, 0x000000, 0xffd700, 0x000000,
          0xffb6c1, 0xdddddd]"
    by (simp add: segment_color_def new_CatModel_built default_material_def)
  finally show ?thesis
    using wf stored by simp
qed

text \<open>
  C4: \<open>toggleWireframe(enabled)\<close> gives the wireframe flag of the black-fur and of the
  white-fur material the value \<open>enabled\<close> (set for \<open>true\<close>, cleared for \<open>false\<close>), changes
  nothing else of these two, and leaves the eye, nose, inner-ear and whisker materials
  and every other material as they are.
\<close>

theorem toggleWireframe_frame:
  assumes "materials_wf this"
  shows "mwireframe (material_store (toggleWireframe enabled this)
                       ! blackFurMaterial (materials this)) = enabled
       \<and> mwireframe (material_store (toggleWireframe enabled this)
                       ! whiteFurMaterial (materials this)) = enabled
       \<and> material_store (toggleWireframe enabled this) ! blackFurMaterial (materials this)
           = (material_store this ! blackFurMaterial (materials this))
               \<lparr>mwireframe := enabled\<rparr>
       \<and> material_store (toggleWireframe enabled this) ! whiteFurMaterial (materials this)
           = (material_store this ! whiteFurMaterial (materials this))
               \<lparr>mwireframe := enabled\<rparr>
       \<and> list_all (\<lambda>h. material_store (toggleWireframe enabled this) ! h
                          = material_store this ! h)
           [eyeMaterial (materials this), noseMaterial (materials this),
            innerEarMaterial (materials this), whiskerMaterial (materials this)]
       \<and> (\<forall>a. a \<noteq> blackFurMaterial (materials this)
              \<and> a \<noteq> whiteFurMaterial (materials this) \<longrightarrow>
              material_store (toggleWireframe enabled this) ! a = material_store this ! a)
       \<and> length (material_store (toggleWireframe enabled this))
           = length (material_store this)
       \<and> materials (toggleWireframe enabled this) = materials this
       \<and> children (toggleWireframe enabled this) = children this
       \<and> geometries (toggleWireframe enabled this) = geometries this"
proof -
  let ?b = "blackFurMaterial (materials this)"
  let ?w = "whiteFurMaterial (materials this)"
  from assms have ne: "?b \<noteq> ?w" "eyeMaterial (materials this) \<noteq> ?b"
    "eyeMaterial (materials this) \<noteq> ?w" "noseMaterial (materials this) \<noteq> ?b"
    "noseMaterial (materials this) \<noteq> ?w" "innerEarMaterial (materials this) \<noteq> ?b"
    "innerEarMaterial (materials this) \<noteq> ?w" "whiskerMaterial (materials this) \<noteq> ?b"
    "whiskerMaterial (materials this) \<noteq> ?w"
    and lt: "?b < length (material_store this)" "?w < length (material_store this)"
    by (auto simp: materials_wf_def role_handles_def)
  have store: "material_store (toggleWireframe enabled this)
      = modify ?w (\<lambda>m. m\<lparr>mwireframe := enabled\<rparr>)
          (modify ?b (\<lambda>m. m\<lparr>mwireframe := enabled\<rparr>) (material_store this))"
    by (simp add: toggleWireframe_def Let_def)
  have rest: "materials (toggleWireframe enabled this) = materials this"
    "children (toggleWireframe enabled this) = children this"
    "geometries (toggleWireframe enabled this) = geometries this"
    by (simp_all add: toggleWireframe_def Let_def)
  show ?thesis
    unfolding store rest using ne lt by (simp add: nth_modify length_modify)
qed

theorem toggleWireframe_frame_witness:
  "materials_wf (new_CatModel (\<lambda>k. 0))
   \<and> mwireframe (material_store (toggleWireframe True (new_CatModel (\<lambda>k. 0))) ! 0) = True
   \<and> mwireframe (material_store (toggleWireframe True (new_CatModel (\<lambda>k. 0))) ! 1) = True
   \<and> map mwireframe (material_store (toggleWireframe True (new_CatModel (\<lambda>k. 0))))
       = [True, True, False, False, False, False, False]
   \<and> map mwireframe (material_store
         (toggleWireframe False (toggleWireframe True (new_CatModel (\<lambda>k. 0)))))
       = [False, False, False, False, False, False, False]"
proof -
  let ?fresh = "new_CatModel (\<lambda>k. 0)"
  have wf: "materials_wf ?fresh"
    by (rule materials_wf_fresh)
  have flags: "mwireframe (material_store (toggleWireframe True ?fresh) ! 0) = True"
    "mwireframe (material_store (toggleWireframe True ?fresh) ! 1) = True"
    using toggleWireframe_frame [OF wf, of True] by (simp_all add: fresh_refs)
  have on: "map mwireframe (material_store (toggleWireframe True ?fresh))
       = [True, True, False, False, False, False, False]"
    by (simp add: toggleWireframe_def modify_def new_CatModel_built default_material_def)
  have off: "map mwireframe (material_store (toggleWireframe False (toggleWireframe True ?fresh)))
       = [False, False, False, False, False, False, False]"
    by (simp add: toggleWireframe_def modify_def new_CatModel_built default_material_def)
  from wf flags on off show ?thesis
    by simp
qed

subsection \<open>Mirrored twins\<close>

text \<open>
  C6: each twin made by \<open>clone\<close> (the right ear from the left ear, and likewise the
  inner ears, the front legs, the back legs, the eyes and the pupils) is the reflection
  of its original in the plane \<open>x = 0\<close>: the position has the sign of \<open>x\<close> changed, the
  rotation has the signs of the angles about \<open>y\<close> and \<open>z\<close> changed and the angle about
  \<open>x\<close> kept. The twin refers to the geometry and the material of the original, and an
  update of the twin through its own reference leaves the original as it is.
\<close>

theorem mirrored_twins:
  "map (\<lambda>(i, j). (name (children (new_CatModel rnd) ! i),
                    name (children (new_CatModel rnd) ! j))) twin_pairs
     = [(''leftEar'', ''rightEar''), (''leftInnerEar'', ''rightInnerEar''),
        (''frontLeftLeg'', ''frontRightLeg''), (''backLeftLeg'', ''backRightLeg''),
        (''leftEye'', ''rightEye''), (''leftPupil'', ''rightPupil'')]
   \<and> list_all (\<lambda>(i, j).
         mirrored (children (new_CatModel rnd) ! i) (children (new_CatModel rnd) ! j)
         \<and> geom (children (new_CatModel rnd) ! j) = geom (children (new_CatModel rnd) ! i)
         \<and> mat (children (new_CatModel rnd) ! j) = mat (children (new_CatModel rnd) ! i))
       twin_pairs
   \<and> position (children (new_CatModel rnd) ! 5) = Vector3 (- 0.25) 1.25 1.15
   \<and> position (children (new_CatModel rnd) ! 7) = Vector3 0.25 1.25 1.15
   \<and> rotation (children (new_CatModel rnd) ! 5) = Euler 0.2 0 (- 0.4)
   \<and> rotation (children (new_CatModel rnd) ! 7) = Euler 0.2 0 0.4
   \<and> list_all (\<lambda>(i, j). \<forall>f.
         children ((new_CatModel rnd)
                     \<lparr>children := modify j f (children (new_CatModel rnd))\<rparr>) ! i
           = children (new_CatModel rnd) ! i)
       twin_pairs"
  by (simp add: twin_pairs_def mirrored_def nth_modify new_CatModel_built)

subsection \<open>Curve tubes\<close>

text \<open>
  What \<open>createSplineTube\<close> decides of a tube are the arguments of the two constructor
  calls: the control points of the path, the radius, the segment counts, and the flag
  \<open>closed\<close>, which is false for every tube it makes. The swept surface itself is computed
  by the library.
\<close>

lemma createSplineTube_arguments:
  "tube_closed (createSplineTube points radius rs ts) = Some False
   \<and> tube_radius (createSplineTube points radius rs ts) = Some radius
   \<and> map_option curve_points (tube_path (createSplineTube points radius rs ts)) = Some points
   \<and> tube_segments (createSplineTube points radius rs ts)
       = Some (case rs of None \<Rightarrow> 16 | Some n \<Rightarrow> n, case ts of None \<Rightarrow> 64 | Some n \<Rightarrow> n)"
  by (simp add: createSplineTube_def)

subsection \<open>The pose switch\<close>

lemma map_modify_same:
  assumes "\<And>x. g (f x) = g x"
  shows "map g (modify i f xs) = map g xs"
  by (rule nth_equalityI) (simp_all add: nth_modify length_modify assms)

lemma animateStand_scale:
  "map scale (children (animateStand this)) = map scale (children this)"
  "body_scale_y (animateStand this) = body_scale_y this"
  by (cases "body this"; simp add: animateStand_def body_scale_y_def map_modify_same nth_modify)+

text \<open>
  C10: for every value of the pose selector other than \<open>sit\<close> and \<open>stand\<close>, \<open>idle\<close> and
  unrecognized values included, the pose switch applies \<open>animateStand\<close>, as it does for
  \<open>stand\<close>. It leaves every scale as it is: the breathing comes from the frame loop,
  which calls \<open>animateIdle\<close> while the selector is \<open>idle\<close> and not otherwise.
\<close>

theorem default_pose_is_stand:
  assumes "mode \<noteq> JString ''sit''" and "mode \<noteq> JString ''stand''"
  shows "animation_change mode v
           = v\<lparr>currentAnimation := mode, catModel := animateStand (catModel v)\<rparr>
       \<and> catModel (animation_change mode v)
           = catModel (animation_change (JString ''stand'') v)
       \<and> body_scale_y (catModel (animation_change mode v)) = body_scale_y (catModel v)
       \<and> map scale (children (catModel (animation_change mode v)))
           = map scale (children (catModel v))
       \<and> catModel (animate t (animation_change (JString ''idle'') v))
           = animateIdle t (animateStand (catModel v))
       \<and> (mode \<noteq> JString ''idle'' \<longrightarrow>
            animate t (animation_change mode v) = animation_change mode v)"
  using assms
  by (simp add: animation_change_def updateAnimation_def animate_def animateStand_scale)

theorem default_pose_is_stand_witness:
  "JString ''idle'' \<noteq> JString ''sit'' \<and> JString ''idle'' \<noteq> JString ''stand''
   \<and> animation_change (JString ''idle'')
        \<lparr>currentAnimation = JString ''sit'', catModel = animateSit (new_CatModel (\<lambda>k. 0))\<rparr>
       = \<lparr>currentAnimation = JString ''idle'',
          catModel = animateStand (animateSit (new_CatModel (\<lambda>k. 0)))\<rparr>
   \<and> JUndefined \<noteq> JString ''sit'' \<and> JUndefined \<noteq> JString ''stand''
   \<and> animation_change JUndefined
        \<lparr>currentAnimation = JString ''sit'', catModel = animateSit (new_CatModel (\<lambda>k. 0))\<rparr>
       = \<lparr>currentAnimation = JUndefined,
          catModel = animateStand (animateSit (new_CatModel (\<lambda>k. 0)))\<rparr>"
  using default_pose_is_stand [of "JString ''idle''"
          "\<lparr>currentAnimation = JString ''sit'', catModel = animateSit (new_CatModel (\<lambda>k. 0))\<rparr>"
          "Num 0"]
        default_pose_is_stand [of JUndefined
          "\<lparr>currentAnimation = JString ''sit'', catModel = animateSit (new_CatModel (\<lambda>k. 0))\<rparr>"
          "Num 0"]
  by simp

subsection \<open>Poses\<close>

text \<open>
  C5: from any state of the figure, \<open>animateSit(); animateStand(); animateSit()\<close> leaves
  the state that one call of \<open>animateSit()\<close> leaves, and each of the two poses is
  idempotent.
\<close>

theorem sit_stand_sit:
  "animateSit (animateStand (animateSit this)) = animateSit this
   \<and> animateSit (animateSit this) = animateSit this
   \<and> animateStand (animateStand this) = animateStand this"
  by (cases "body this") (simp_all add: animateSit_def animateStand_def modify_twice)

end
